theory Spec2Isabelle
  imports Complex_Main
begin

section \<open>Data model of the retrieval-augmented chat agent\<close>

text \<open>
  The Python exceptions that the pipeline can meet. The first three are raised by the
  collaborators (file reader, retriever, language model); \<open>TypeError\<close> and
  \<open>KeyError\<close> are raised by the interpreter when a value has the wrong shape.
\<close>

datatype error = IndexBuildError | RetrievalError | ModelInferenceError | TypeError | KeyError

text \<open>
  A document as returned by the reader. The two metadata entries the agent touches,
  \<^verbatim>\<open>metadata['file_path']\<close> and \<^verbatim>\<open>metadata['page_index']\<close>, are fields; the second one
  is absent until \<^verbatim>\<open>udpate_index\<close> writes it.
\<close>

record document =
  file_path :: string
  page_index :: "nat option"
  doc_text :: string

text \<open>\<^verbatim>\<open>NodeWithScore\<close>: an indexed document together with its relevance score.\<close>

record node =
  node_doc :: document
  score :: rat

text \<open>
  A chat message is a dictionary with the keys \<^verbatim>\<open>role\<close> and \<^verbatim>\<open>content\<close>. The content is
  a plain string, a dictionary (the transcript renderer reads its \<^verbatim>\<open>text\<close> entry), or the
  list of typed parts that \<^verbatim>\<open>llm_response\<close> builds when an image is attached.
\<close>

datatype part = TextPart string | ImageUrlPart string

datatype content = Str string | Dict "(string \<times> string) list" | Parts "part list"

record message =
  role :: string
  content :: content

text \<open>
  What \<^verbatim>\<open>create_chat_completion\<close> returns: with \<^verbatim>\<open>stream=False\<close> a completion whose
  \<^verbatim>\<open>["choices"][0]["message"]["content"]\<close> is the given string, with \<^verbatim>\<open>stream=True\<close> a
  sequence of chunks, each carrying a delta dictionary that may have the keys
  \<^verbatim>\<open>role\<close> and \<^verbatim>\<open>content\<close>.
\<close>

record delta =
  delta_role :: "string option"
  delta_content :: "string option"

datatype response = Completion string | Chunks "delta list"

text \<open>The retriever object made by \<^verbatim>\<open>as_retriever\<close>: the index it reads and its top-k.\<close>

record retriever =
  similarity_top_k :: nat
  retriever_index :: "document list"

text \<open>
  Calls made on the collaborators, in the order they happen. The agent's state carries
  this log so that statements about which calls an operation makes can be written down.
\<close>

datatype call =
    LoadData "string set"
  | FromDocuments "document list"
  | Insert document
  | AsRetriever nat
  | CreateChatCompletion "message list" bool
  | ARetrieve string
  | PostprocessNodes "node list"

text \<open>
  The collaborators themselves are opaque: the file reader
  (\<^verbatim>\<open>SimpleDirectoryReader(...).load_data\<close>), the language model
  (\<^verbatim>\<open>llm.create_chat_completion(messages, stream)\<close>), the similarity ranking of an index
  for a query, and the rendering of a node (\<^verbatim>\<open>node.get_content(metadata_mode="llm")\<close>).
  Each one that can raise returns a sum.
\<close>

record env =
  load_data :: "string set \<Rightarrow> error + document list"
  create_chat_completion :: "message list \<Rightarrow> bool \<Rightarrow> error + response"
  similarity_search :: "document list \<Rightarrow> string \<Rightarrow> error + node list"
  get_content :: "node \<Rightarrow> string"

text \<open>
  The fields of \<^verbatim>\<open>RAGAgent\<close>. \<open>agent_k\<close> is \<^verbatim>\<open>self.k\<close>, \<open>similarity_cutoff\<close> is the cutoff
  of \<^verbatim>\<open>self.node_processor\<close>, and \<open>trace\<close> is the log of collaborator calls.
\<close>

record agent =
  agent_k :: nat
  search_index :: "document list option"
  retriever :: "retriever option"
  chat_history :: "message list"
  lookup_files :: "string set"
  similarity_cutoff :: rat
  trace :: "call list"

text \<open>The \<^verbatim>\<open>StartEvent\<close> of one invocation and the workflow context that \<^verbatim>\<open>setup\<close> fills.\<close>

record start_event =
  ev_query_str :: string
  ev_image :: "string option"
  ev_lookup_files :: "string set"
  ev_streaming :: bool

record invocation_context =
  query_str :: string
  image :: "string option"
  streaming :: bool

section \<open>Prompt templates and transcript rendering\<close>

definition nl :: string where
  "nl = [CHR 0x0A]"

definition triple_quote :: string where
  "triple_quote = [CHR 0x27, CHR 0x27, CHR 0x27]"

definition SUMMARY_TEMPLATE :: "string \<Rightarrow> string \<Rightarrow> string" where
  "SUMMARY_TEMPLATE chat_history_str q =
     ''Given the chat history:'' @ nl @
     triple_quote @ chat_history_str @ triple_quote @ nl @ nl @
     ''And the user asked the following question:'' @ q @ nl @
     ''Rewrite to a standalone question:'' @ nl"

definition CONTEXT_PROMPT_TEMPLATE :: "string \<Rightarrow> string \<Rightarrow> string" where
  "CONTEXT_PROMPT_TEMPLATE node_context q =
     ''Information that might help:'' @ nl @
     ''-----'' @ nl @
     node_context @ nl @
     ''-----'' @ nl @
     ''Please write a response to the following question, using the above information if relevant:'' @ nl @
     q @ nl"

text \<open>
  \<^verbatim>\<open>convert_message_list_to_str\<close>: one line \<^verbatim>\<open>role: content\<close> per message. A content that is
  not a string is subscripted with \<^verbatim>\<open>"text"\<close>, which raises on a dictionary without that
  key and on a list.
\<close>

fun content_text :: "content \<Rightarrow> error + string" where
  "content_text (Str s) = Inr s"
| "content_text (Dict d) = (case map_of d ''text'' of None \<Rightarrow> Inl KeyError | Some t \<Rightarrow> Inr t)"
| "content_text (Parts ps) = Inl TypeError"

fun convert_loop :: "string \<Rightarrow> message list \<Rightarrow> error + string" where
  "convert_loop chat_history_str [] = Inr chat_history_str"
| "convert_loop chat_history_str (m # ms) =
     (case content_text (content m) of
        Inl e \<Rightarrow> Inl e
      | Inr t \<Rightarrow> convert_loop (chat_history_str @ role m @ '': '' @ t @ nl) ms)"

definition convert_message_list_to_str :: "message list \<Rightarrow> error + string" where
  "convert_message_list_to_str messages = convert_loop [] messages"

section \<open>The agent\<close>

text \<open>\<^verbatim>\<open>RAGAgent.__init__\<close>.\<close>

definition init :: agent where
  "init = \<lparr>agent_k = 3, search_index = None, retriever = None, chat_history = [],
           lookup_files = {}, similarity_cutoff = 3 / 10, trace = []\<rparr>"

subsection \<open>Index maintenance\<close>

text \<open>
  The numbering loop of \<^verbatim>\<open>udpate_index\<close>. The tracker is a \<^verbatim>\<open>defaultdict(int)\<close>, so a
  total function that starts at 0 everywhere.
\<close>

fun assign_page_index :: "(string \<Rightarrow> nat) \<Rightarrow> document list \<Rightarrow> document list" where
  "assign_page_index page_num_tracker [] = []"
| "assign_page_index page_num_tracker (doc # docs) =
     (let key = file_path doc in
        doc\<lparr>page_index := Some (page_num_tracker key)\<rparr>
          # assign_page_index (page_num_tracker(key := page_num_tracker key + 1)) docs)"

text \<open>
  Modelled from the spec: the vector index of the library (\<^verbatim>\<open>VectorStoreIndex\<close>), which is
  not part of the sources. An index is the sequence of documents it holds;
  \<^verbatim>\<open>from_documents\<close> holds exactly the given ones, and \<^verbatim>\<open>insert\<close> keeps the prior entries
  and appends the new one.
\<close>

definition from_documents :: "document list \<Rightarrow> document list" where
  "from_documents documents = documents"

definition insert_doc :: "document list \<Rightarrow> document \<Rightarrow> document list" where
  "insert_doc idx doc = idx @ [doc]"

definition udpate_index :: "env \<Rightarrow> string set \<Rightarrow> agent \<Rightarrow> (error + unit) \<times> agent" where
  "udpate_index E files s =
     (if files = {} then (Inr (), s\<lparr>retriever := None, search_index := None\<rparr>)
      else
        (case load_data E files of
           Inl e \<Rightarrow> (Inl e, s\<lparr>trace := trace s @ [LoadData files]\<rparr>)
         | Inr loaded \<Rightarrow>
             (let documents = assign_page_index (\<lambda>_. 0) loaded;
                  idx = (case search_index s of
                           None \<Rightarrow> from_documents documents
                         | Some old \<Rightarrow> foldl insert_doc old documents);
                  ops = (case search_index s of
                           None \<Rightarrow> [FromDocuments documents]
                         | Some old \<Rightarrow> map Insert documents)
              in (Inr (),
                  s\<lparr>search_index := Some idx,
                    retriever := Some \<lparr>similarity_top_k = agent_k s, retriever_index = idx\<rparr>,
                    trace := trace s @ [LoadData files] @ ops @ [AsRetriever (agent_k s)]\<rparr>))))"

text \<open>
  \<^verbatim>\<open>setup\<close>: fills the context, refreshes the index when the lookup files differ from the
  retained ones, and retains the new set. An exception of \<^verbatim>\<open>udpate_index\<close> leaves before
  the retained set is assigned.
\<close>

definition setup_step :: "env \<Rightarrow> start_event \<Rightarrow> agent \<Rightarrow> (error + invocation_context) \<times> agent" where
  "setup_step E ev s =
     (let ctx = \<lparr>query_str = ev_query_str ev, image = ev_image ev, streaming = ev_streaming ev\<rparr>
      in if ev_lookup_files ev \<noteq> lookup_files s then
           (case udpate_index E (ev_lookup_files ev) s of
              (Inl e, s') \<Rightarrow> (Inl e, s')
            | (Inr u, s') \<Rightarrow> (Inr ctx, s'\<lparr>lookup_files := ev_lookup_files ev\<rparr>))
         else (Inr ctx, s\<lparr>lookup_files := ev_lookup_files ev\<rparr>))"

subsection \<open>Condensation\<close>

text \<open>
  \<^verbatim>\<open>condense_history_to_query\<close>. The completion is subscripted as a dictionary, which a
  chunk sequence is not.
\<close>

definition condense_history_to_query :: "env \<Rightarrow> invocation_context \<Rightarrow> agent \<Rightarrow> (error + string) \<times> agent" where
  "condense_history_to_query E ctx s =
     (if length (chat_history s) > 0 \<or> retriever s \<noteq> None then
        (case convert_message_list_to_str (chat_history s) of
           Inl e \<Rightarrow> (Inl e, s)
         | Inr chat_history_str \<Rightarrow>
             (let formated_query = SUMMARY_TEMPLATE chat_history_str (query_str ctx);
                  messages = [\<lparr>role = ''user'', content = Str formated_query\<rparr>];
                  s' = s\<lparr>trace := trace s @ [CreateChatCompletion messages False]\<rparr>
              in case create_chat_completion E messages False of
                   Inl e \<Rightarrow> (Inl e, s')
                 | Inr (Chunks ds) \<Rightarrow> (Inl TypeError, s')
                 | Inr (Completion history_summary) \<Rightarrow>
                     (Inr (''Context:'' @ nl @ history_summary @ nl @ ''Question: '' @ query_str ctx),
                      s')))
      else (Inr (query_str ctx), s))"

subsection \<open>Retrieval\<close>

text \<open>
  Modelled from the spec: the retriever and the similarity postprocessor of the library,
  which are not part of the sources. The retriever returns the first \<open>k\<close> nodes of the
  ranking of its index; the postprocessor drops every node whose score is below the cutoff.
\<close>

definition aretrieve :: "env \<Rightarrow> retriever \<Rightarrow> string \<Rightarrow> error + node list" where
  "aretrieve E r q =
     (case similarity_search E (retriever_index r) q of
        Inl e \<Rightarrow> Inl e
      | Inr ranked \<Rightarrow> Inr (take (similarity_top_k r) ranked))"

definition postprocess_nodes :: "rat \<Rightarrow> node list \<Rightarrow> node list" where
  "postprocess_nodes cutoff nodes = filter (\<lambda>n. \<not> score n < cutoff) nodes"

text \<open>\<^verbatim>\<open>retrieve\<close>: no retriever gives no nodes, without any call.\<close>

definition retrieve :: "env \<Rightarrow> string \<Rightarrow> agent \<Rightarrow> (error + node list) \<times> agent" where
  "retrieve E condensed_query_str s =
     (case retriever s of
        None \<Rightarrow> (Inr [], s)
      | Some r \<Rightarrow>
          (case aretrieve E r condensed_query_str of
             Inl e \<Rightarrow> (Inl e, s\<lparr>trace := trace s @ [ARetrieve condensed_query_str]\<rparr>)
           | Inr nodes \<Rightarrow>
               (Inr (postprocess_nodes (similarity_cutoff s) nodes),
                s\<lparr>trace := trace s @ [ARetrieve condensed_query_str, PostprocessNodes nodes]\<rparr>)))"

subsection \<open>Prompt composition and the final model call\<close>

text \<open>\<^verbatim>\<open>_prepare_query_with_context\<close>.\<close>

fun node_context_loop :: "env \<Rightarrow> string \<Rightarrow> node list \<Rightarrow> string" where
  "node_context_loop E node_context [] = node_context"
| "node_context_loop E node_context (n # ns) =
     node_context_loop E (node_context @ nl @ get_content E n @ nl @ nl) ns"

definition prepare_query_with_context :: "env \<Rightarrow> string \<Rightarrow> node list \<Rightarrow> string" where
  "prepare_query_with_context E q nodes =
     (if length nodes = 0 then q
      else CONTEXT_PROMPT_TEMPLATE (node_context_loop E [] nodes) q)"

text \<open>
  The message that \<^verbatim>\<open>llm_response\<close> builds. \<^verbatim>\<open>if image:\<close> is false for \<^verbatim>\<open>None\<close> and for the
  empty string.
\<close>

definition formated_message :: "string \<Rightarrow> string option \<Rightarrow> message" where
  "formated_message query_with_ctx img =
     (case img of
        None \<Rightarrow> \<lparr>role = ''user'', content = Str query_with_ctx\<rparr>
      | Some url \<Rightarrow>
          (if url = [] then \<lparr>role = ''user'', content = Str query_with_ctx\<rparr>
           else \<lparr>role = ''user'',
                 content = Parts [TextPart query_with_ctx, ImageUrlPart url]\<rparr>))"

text \<open>
  \<^verbatim>\<open>llm_response\<close>: the model is called on the history followed by the new message; the
  user turn is appended once the call has returned.
\<close>

definition llm_response :: "env \<Rightarrow> invocation_context \<Rightarrow> node list \<Rightarrow> agent \<Rightarrow> (error + response) \<times> agent" where
  "llm_response E ctx nodes s =
     (let query_with_ctx = prepare_query_with_context E (query_str ctx) nodes;
          messages = chat_history s @ [formated_message query_with_ctx (image ctx)];
          s' = s\<lparr>trace := trace s @ [CreateChatCompletion messages (streaming ctx)]\<rparr>
      in case create_chat_completion E messages (streaming ctx) of
           Inl e \<Rightarrow> (Inl e, s')
         | Inr response \<Rightarrow>
             (Inr response,
              s'\<lparr>chat_history := chat_history s' @ [\<lparr>role = ''user'', content = Str (query_str ctx)\<rparr>]\<rparr>))"

subsection \<open>The workflow\<close>

text \<open>
  The workflow dispatches on event types, which chains the four steps:
  \<^verbatim>\<open>StartEvent\<close> to \<^verbatim>\<open>setup\<close>, \<^verbatim>\<open>SetupEvent\<close> to \<^verbatim>\<open>condense_history_to_query\<close>,
  \<^verbatim>\<open>CondenseQueryEvent\<close> to \<^verbatim>\<open>retrieve\<close>, \<^verbatim>\<open>RetrievalEvent\<close> to \<^verbatim>\<open>llm_response\<close>. An
  exception in a step ends the run; what the step had already changed stays changed.
\<close>

definition run :: "env \<Rightarrow> start_event \<Rightarrow> agent \<Rightarrow> (error + response) \<times> agent" where
  "run E ev s =
     (case setup_step E ev s of
        (Inl e, s1) \<Rightarrow> (Inl e, s1)
      | (Inr ctx, s1) \<Rightarrow>
          (case condense_history_to_query E ctx s1 of
             (Inl e, s2) \<Rightarrow> (Inl e, s2)
           | (Inr condensed_query_str, s2) \<Rightarrow>
               (case retrieve E condensed_query_str s2 of
                  (Inl e, s3) \<Rightarrow> (Inl e, s3)
                | (Inr nodes, s3) \<Rightarrow> llm_response E ctx nodes s3)))"

subsection \<open>The worker thread\<close>

text \<open>
  Modelled from the spec: \<^verbatim>\<open>model_handler.chat_completion\<close> and
  \<^verbatim>\<open>model_handler.update_chat_history\<close>, whose module is not part of the sources. The first
  forwards its arguments to the pipeline; the second appends a turn with the given role
  and text to the agent's chat history.
\<close>

definition chat_completion :: "env \<Rightarrow> string \<Rightarrow> string option \<Rightarrow> string set \<Rightarrow> bool \<Rightarrow> agent \<Rightarrow> (error + response) \<times> agent" where
  "chat_completion E prompt img files stream s =
     run E \<lparr>ev_query_str = prompt, ev_image = img, ev_lookup_files = files, ev_streaming = stream\<rparr> s"

definition update_chat_history :: "string \<Rightarrow> string \<Rightarrow> agent \<Rightarrow> agent" where
  "update_chat_history msg r s = s\<lparr>chat_history := chat_history s @ [\<lparr>role = r, content = Str msg\<rparr>]\<rparr>"

text \<open>
  The loop of \<^verbatim>\<open>ProcessingThread.run\<close> over the chunks: a delta with a \<^verbatim>\<open>role\<close> key is only
  printed, otherwise a \<^verbatim>\<open>content\<close> key adds its text to the full response.
\<close>

fun collect_response :: "string \<Rightarrow> delta list \<Rightarrow> string" where
  "collect_response full_response_str [] = full_response_str"
| "collect_response full_response_str (d # ds) =
     (if delta_role d \<noteq> None then collect_response full_response_str ds
      else (case delta_content d of
              Some c \<Rightarrow> collect_response (full_response_str @ c) ds
            | None \<Rightarrow> collect_response full_response_str ds))"

text \<open>
  \<^verbatim>\<open>ProcessingThread.run\<close>: a streamed completion, collected, then appended as the
  assistant turn. Iterating over a completion that is not a chunk sequence yields its
  keys, and subscripting a key with \<^verbatim>\<open>"choices"\<close> raises.
\<close>

definition processing_thread_run :: "env \<Rightarrow> string \<Rightarrow> string option \<Rightarrow> string set \<Rightarrow> agent \<Rightarrow> (error + string) \<times> agent" where
  "processing_thread_run E prompt img files s =
     (case chat_completion E prompt img files True s of
        (Inl e, s') \<Rightarrow> (Inl e, s')
      | (Inr (Completion c), s') \<Rightarrow> (Inl TypeError, s')
      | (Inr (Chunks output), s') \<Rightarrow>
          (let full_response_str = collect_response [] output
           in (Inr full_response_str, update_chat_history full_response_str ''assistant'' s')))"

subsection \<open>Predicates on agent states\<close>

text \<open>
  Two facts that hold of the agent between invocations: a retriever, when there is one,
  was made with the agent's \<^verbatim>\<open>k\<close>; and an agent that retains no lookup files has no
  retriever.
\<close>

definition retriever_uses_k :: "agent \<Rightarrow> bool" where
  "retriever_uses_k s = (case retriever s of None \<Rightarrow> True | Some r \<Rightarrow> similarity_top_k r = agent_k s)"

definition no_files_no_retriever :: "agent \<Rightarrow> bool" where
  "no_files_no_retriever s = (lookup_files s = {} \<longrightarrow> retriever s = None)"

text \<open>
  Whether the content of a message is a plain string, and the transcript line of such a
  message.
\<close>

fun is_plain :: "message \<Rightarrow> bool" where
  "is_plain m = (case content m of Str t \<Rightarrow> True | Dict d \<Rightarrow> False | Parts ps \<Rightarrow> False)"


text \<open>Whether a message carries an image part.\<close>

fun is_image_part :: "part \<Rightarrow> bool" where
  "is_image_part (ImageUrlPart url) = True"
| "is_image_part (TextPart t) = False"

fun has_image :: "message \<Rightarrow> bool" where
  "has_image m = (case content m of Parts ps \<Rightarrow> list_ex is_image_part ps | _ \<Rightarrow> False)"

section \<open>Concrete scenarios\<close>

text \<open>
  A small world used to run the definitions: two files, the first read as two documents
  and the second as one; a third path that the reader cannot open; a model that answers
  every request; and a ranking that scores the documents of the first file high.
\<close>

definition doc_a1 :: document where
  "doc_a1 = \<lparr>file_path = ''a.txt'', page_index = None, doc_text = ''Paris''\<rparr>"

definition doc_a2 :: document where
  "doc_a2 = \<lparr>file_path = ''a.txt'', page_index = None, doc_text = ''Lyon''\<rparr>"

definition doc_b1 :: document where
  "doc_b1 = \<lparr>file_path = ''b.txt'', page_index = None, doc_text = ''Berlin''\<rparr>"

definition example_reader :: "string set \<Rightarrow> error + document list" where
  "example_reader files =
     (if ''missing.txt'' \<in> files then Inl IndexBuildError
      else Inr ((if ''a.txt'' \<in> files then [doc_a1, doc_a2] else [])
                @ (if ''b.txt'' \<in> files then [doc_b1] else [])))"

definition example_llm :: "message list \<Rightarrow> bool \<Rightarrow> error + response" where
  "example_llm messages stream =
     (if stream then
        Inr (Chunks [\<lparr>delta_role = Some ''assistant'', delta_content = None\<rparr>,
                     \<lparr>delta_role = None, delta_content = Some ''Par''\<rparr>,
                     \<lparr>delta_role = None, delta_content = Some ''is''\<rparr>])
      else Inr (Completion ''capital?''))"

definition example_search :: "document list \<Rightarrow> string \<Rightarrow> error + node list" where
  "example_search idx q =
     Inr (map (\<lambda>d. \<lparr>node_doc = d, score = (if file_path d = ''a.txt'' then 9 / 10 else 1 / 10)\<rparr>) idx)"

definition example_env :: env where
  "example_env = \<lparr>load_data = example_reader, create_chat_completion = example_llm,
                  similarity_search = example_search, get_content = (\<lambda>n. doc_text (node_doc n))\<rparr>"

definition failing_llm_env :: env where
  "failing_llm_env = example_env\<lparr>create_chat_completion := (\<lambda>messages stream. Inl ModelInferenceError)\<rparr>"

definition failing_search_env :: env where
  "failing_search_env = example_env\<lparr>similarity_search := (\<lambda>idx q. Inl RetrievalError)\<rparr>"

definition example_event :: "string set \<Rightarrow> start_event" where
  "example_event files =
     \<lparr>ev_query_str = ''capital of France?'', ev_image = None, ev_lookup_files = files,
      ev_streaming = True\<rparr>"

text \<open>The agent after a first invocation's \<^verbatim>\<open>setup\<close> over the first file alone.\<close>

definition agent_a :: agent where
  "agent_a = snd (setup_step example_env (example_event {''a.txt''}) init)"

text \<open>
  The same agent with one exchange in its history, and the agent after a second
  invocation's \<^verbatim>\<open>setup\<close> over both files.
\<close>

definition agent_talked :: agent where
  "agent_talked = agent_a\<lparr>chat_history := [\<lparr>role = ''user'', content = Str ''Hi''\<rparr>,
                                           \<lparr>role = ''assistant'', content = Str ''Hello''\<rparr>]\<rparr>"

definition agent_ab :: agent where
  "agent_ab = snd (setup_step example_env (example_event {''a.txt'', ''b.txt''}) agent_a)"

text \<open>The contexts of an invocation without and with an image.\<close>

definition example_context :: invocation_context where
  "example_context = \<lparr>query_str = ''capital of France?'', image = None, streaming = True\<rparr>"

definition image_context :: invocation_context where
  "image_context = \<lparr>query_str = ''what is this?'', image = Some ''shot.png'', streaming = False\<rparr>"

section \<open>Properties of the index maintenance\<close>




lemma agent_a_eq:
  "agent_a = init\<lparr>search_index := Some [doc_a1\<lparr>page_index := Some 0\<rparr>, doc_a2\<lparr>page_index := Some 1\<rparr>],
        retriever := Some \<lparr>similarity_top_k = 3,
                           retriever_index = [doc_a1\<lparr>page_index := Some 0\<rparr>, doc_a2\<lparr>page_index := Some 1\<rparr>]\<rparr>,
        lookup_files := {''a.txt''},
        trace := [LoadData {''a.txt''},
                  FromDocuments [doc_a1\<lparr>page_index := Some 0\<rparr>, doc_a2\<lparr>page_index := Some 1\<rparr>],
                  AsRetriever 3]\<rparr>"
  by (simp add: agent_a_def setup_step_def udpate_index_def example_event_def example_env_def
      example_reader_def init_def Let_def from_documents_def doc_a1_def doc_a2_def)

text \<open>
  C5. When the lookup files of the invocation equal the retained set, \<^verbatim>\<open>setup\<close> only fills
  the context: the agent, with its search index, its retriever and its log of
  collaborator calls, is returned as it was, so nothing is read, built, inserted or
  cleared.
\<close>

theorem setup_step_unchanged_files:
  "ev_lookup_files ev = lookup_files s \<Longrightarrow>
   setup_step E ev s =
     (Inr \<lparr>query_str = ev_query_str ev, image = ev_image ev, streaming = ev_streaming ev\<rparr>, s)"
  by (simp add: setup_step_def)

theorem setup_step_unchanged_files_witness:
  "ev_lookup_files (example_event {''a.txt''}) = lookup_files agent_a \<and>
   setup_step example_env (example_event {''a.txt''}) agent_a =
     (Inr \<lparr>query_str = ''capital of France?'', image = None, streaming = True\<rparr>, agent_a) \<and>
   search_index agent_a \<noteq> None"
  using setup_step_unchanged_files [of "example_event {''a.txt''}" agent_a example_env]
  by (simp add: agent_a_eq example_event_def init_def)






section \<open>Frame properties of the steps\<close>

text \<open>
  What each step leaves alone. The setup step never touches the chat history, \<^verbatim>\<open>k\<close> or the
  cutoff; condensation and retrieval change nothing but the log of calls.
\<close>

lemma udpate_index_frame:
  "chat_history (snd (udpate_index E files s)) = chat_history s \<and>
   agent_k (snd (udpate_index E files s)) = agent_k s \<and>
   similarity_cutoff (snd (udpate_index E files s)) = similarity_cutoff s"
  by (simp add: udpate_index_def Let_def split: sum.splits)

lemma setup_step_frame:
  "chat_history (snd (setup_step E ev s)) = chat_history s \<and>
   agent_k (snd (setup_step E ev s)) = agent_k s \<and>
   similarity_cutoff (snd (setup_step E ev s)) = similarity_cutoff s"
  using udpate_index_frame [of E "ev_lookup_files ev" s]
  by (auto simp: setup_step_def Let_def split: prod.splits sum.splits)

lemma setup_step_ctx:
  "setup_step E ev s = (Inr ctx, s1) \<Longrightarrow>
   ctx = \<lparr>query_str = ev_query_str ev, image = ev_image ev, streaming = ev_streaming ev\<rparr>"
  by (auto simp: setup_step_def Let_def split: prod.splits sum.splits if_splits)

lemma setup_step_chat_history:
  "setup_step E ev s = (r, s') \<Longrightarrow> chat_history s' = chat_history s"
  using setup_step_frame [of E ev s] by simp

lemma condense_frame:
  "snd (condense_history_to_query E ctx s) = s\<lparr>trace := trace (snd (condense_history_to_query E ctx s))\<rparr>"
  by (simp add: condense_history_to_query_def Let_def split: sum.splits response.splits)


lemma condense_chat_history:
  "condense_history_to_query E ctx s = (r, s') \<Longrightarrow> chat_history s' = chat_history s"
  by (auto simp: condense_history_to_query_def Let_def split: sum.splits response.splits if_splits)

lemma condense_retriever:
  "condense_history_to_query E ctx s = (r, s') \<Longrightarrow>
   retriever s' = retriever s \<and> lookup_files s' = lookup_files s \<and> agent_k s' = agent_k s"
  by (auto simp: condense_history_to_query_def Let_def split: sum.splits response.splits if_splits)

lemma retrieve_frame:
  "snd (retrieve E q s) = s\<lparr>trace := trace (snd (retrieve E q s))\<rparr>"
  by (simp add: retrieve_def split: option.splits sum.splits)

lemma retrieve_chat_history:
  "retrieve E q s = (r, s') \<Longrightarrow> chat_history s' = chat_history s"
  by (auto simp: retrieve_def split: option.splits sum.splits)

lemma retrieve_retriever:
  "retrieve E q s = (r, s') \<Longrightarrow>
   retriever s' = retriever s \<and> lookup_files s' = lookup_files s \<and> agent_k s' = agent_k s"
  by (auto simp: retrieve_def split: option.splits sum.splits)

lemma llm_response_error:
  "llm_response E ctx nodes s = (Inl e, s') \<Longrightarrow> chat_history s' = chat_history s"
  by (auto simp: llm_response_def Let_def split: sum.splits)

lemma llm_response_ok:
  "llm_response E ctx nodes s = (Inr resp, s') \<Longrightarrow>
   chat_history s' = chat_history s @ [\<lparr>role = ''user'', content = Str (query_str ctx)\<rparr>]"
  by (auto simp: llm_response_def Let_def split: sum.splits)

lemma llm_response_retriever:
  "llm_response E ctx nodes s = (r, s') \<Longrightarrow>
   retriever s' = retriever s \<and> lookup_files s' = lookup_files s \<and> agent_k s' = agent_k s"
  by (auto simp: llm_response_def Let_def split: sum.splits)

text \<open>
  A successful run went through all four steps; whatever the outcome, the run leaves the
  retriever, the retained files and \<^verbatim>\<open>k\<close> as the setup step left them.
\<close>

lemma run_ok_stages:
  assumes "run E ev s = (Inr resp, s')"
  shows "\<exists>ctx s1 cq s2 nodes s3.
           setup_step E ev s = (Inr ctx, s1) \<and>
           condense_history_to_query E ctx s1 = (Inr cq, s2) \<and>
           retrieve E cq s2 = (Inr nodes, s3) \<and>
           llm_response E ctx nodes s3 = (Inr resp, s')"
  using assms by (auto simp: run_def split: prod.splits sum.splits)

lemma run_after_setup:
  "\<exists>r1 s1. setup_step E ev s = (r1, s1) \<and>
     retriever (snd (run E ev s)) = retriever s1 \<and>
     lookup_files (snd (run E ev s)) = lookup_files s1 \<and>
     agent_k (snd (run E ev s)) = agent_k s1"
proof (cases "setup_step E ev s")
  case p1: (Pair r1 s1)
  show ?thesis
  proof (cases r1)
    case (Inl e)
    then show ?thesis using p1 by (simp add: run_def)
  next
    case r1: (Inr ctx)
    obtain r2 s2 where p2: "condense_history_to_query E ctx s1 = (r2, s2)"
      by (cases "condense_history_to_query E ctx s1")
    note f2 = condense_retriever [OF p2]
    show ?thesis
    proof (cases r2)
      case (Inl e)
      then show ?thesis using p1 r1 p2 f2 by (simp add: run_def)
    next
      case r2: (Inr condensed)
      obtain r3 s3 where p3: "retrieve E condensed s2 = (r3, s3)"
        by (cases "retrieve E condensed s2")
      note f3 = retrieve_retriever [OF p3]
      show ?thesis
      proof (cases r3)
        case (Inl e)
        then show ?thesis using p1 r1 p2 r2 p3 f2 f3 by (simp add: run_def)
      next
        case r3: (Inr nodes)
        obtain r4 s4 where p4: "llm_response E ctx nodes s3 = (r4, s4)"
          by (cases "llm_response E ctx nodes s3")
        note f4 = llm_response_retriever [OF p4]
        show ?thesis using p1 r1 p2 r2 p3 r3 p4 f2 f3 f4 by (simp add: run_def)
      qed
    qed
  qed
qed

lemma run_error_chat_history:
  assumes "run E ev s = (Inl e, s')"
  shows "chat_history s' = chat_history s"
proof (cases "setup_step E ev s")
  case p1: (Pair r1 s1)
  have h1: "chat_history s1 = chat_history s"
    using p1 by (rule setup_step_chat_history)
  show ?thesis
  proof (cases r1)
    case (Inl e1)
    then show ?thesis
      using assms p1 h1 by (simp add: run_def)
  next
    case r1: (Inr ctx)
    show ?thesis
    proof (cases "condense_history_to_query E ctx s1")
      case p2: (Pair r2 s2)
      have h2: "chat_history s2 = chat_history s1"
        using p2 by (rule condense_chat_history)
      show ?thesis
      proof (cases r2)
        case (Inl e2)
        then show ?thesis
          using assms p1 r1 p2 h1 h2 by (simp add: run_def)
      next
        case r2: (Inr cq)
        show ?thesis
        proof (cases "retrieve E cq s2")
          case p3: (Pair r3 s3)
          have h3: "chat_history s3 = chat_history s2"
            using p3 by (rule retrieve_chat_history)
          show ?thesis
          proof (cases r3)
            case (Inl e3)
            then show ?thesis
              using assms p1 r1 p2 r2 p3 h1 h2 h3 by (simp add: run_def)
          next
            case r3: (Inr nodes)
            have "llm_response E ctx nodes s3 = (Inl e, s')"
              using assms p1 r1 p2 r2 p3 r3 by (simp add: run_def)
            then have "chat_history s' = chat_history s3"
              by (rule llm_response_error)
            then show ?thesis
              using h1 h2 h3 by simp
          qed
        qed
      qed
    qed
  qed
qed

lemma run_ok_chat_history:
  assumes "run E ev s = (Inr resp, s')"
  shows "chat_history s' = chat_history s @ [\<lparr>role = ''user'', content = Str (ev_query_str ev)\<rparr>]"
proof -
  obtain ctx s1 cq s2 nodes s3 where
    st: "setup_step E ev s = (Inr ctx, s1)"
    and co: "condense_history_to_query E ctx s1 = (Inr cq, s2)"
    and re: "retrieve E cq s2 = (Inr nodes, s3)"
    and ll: "llm_response E ctx nodes s3 = (Inr resp, s')"
    using run_ok_stages [OF assms] by blast
  have "chat_history s3 = chat_history s"
    using setup_step_chat_history [OF st] condense_chat_history [OF co] retrieve_chat_history [OF re]
    by simp
  moreover have "query_str ctx = ev_query_str ev"
    using setup_step_ctx [OF st] by simp
  ultimately show ?thesis
    using llm_response_ok [OF ll] by simp
qed

section \<open>Invariants of the agent\<close>

lemma invariants_init: "retriever_uses_k init \<and> no_files_no_retriever init"
  by (simp add: retriever_uses_k_def no_files_no_retriever_def init_def)

lemma retriever_uses_k_udpate_index: "retriever_uses_k s \<Longrightarrow> retriever_uses_k (snd (udpate_index E files s))"
  by (auto simp: retriever_uses_k_def udpate_index_def Let_def split: sum.splits option.splits)

lemma setup_step_invariants:
  assumes "retriever_uses_k s \<and> no_files_no_retriever s"
  shows "retriever_uses_k (snd (setup_step E ev s)) \<and> no_files_no_retriever (snd (setup_step E ev s))"
  using assms
  by (auto simp: retriever_uses_k_def no_files_no_retriever_def setup_step_def udpate_index_def Let_def
      split: sum.splits option.splits)

lemma run_invariants:
  assumes "retriever_uses_k s \<and> no_files_no_retriever s"
  shows "retriever_uses_k (snd (run E ev s)) \<and> no_files_no_retriever (snd (run E ev s))"
proof -
  obtain r1 s1 where st: "setup_step E ev s = (r1, s1)"
    and f: "retriever (snd (run E ev s)) = retriever s1"
      "lookup_files (snd (run E ev s)) = lookup_files s1"
      "agent_k (snd (run E ev s)) = agent_k s1"
    using run_after_setup [of E ev s] by blast
  have "retriever_uses_k s1 \<and> no_files_no_retriever s1"
    using setup_step_invariants [OF assms, of E ev] st by simp
  then show ?thesis
    using f by (auto simp: retriever_uses_k_def no_files_no_retriever_def split: option.splits)
qed



section \<open>Evaluating the scenarios\<close>

lemmas scenario_defs =
  init_def agent_a_eq agent_talked_def agent_ab_def example_event_def example_env_def
  failing_llm_env_def failing_search_env_def example_reader_def example_llm_def example_search_def
  doc_a1_def doc_a2_def doc_b1_def image_context_def example_context_def

lemmas pipeline_defs =
  run_def setup_step_def udpate_index_def condense_history_to_query_def retrieve_def aretrieve_def
  postprocess_nodes_def llm_response_def prepare_query_with_context_def formated_message_def
  convert_message_list_to_str_def from_documents_def insert_doc_def Let_def
  chat_completion_def processing_thread_run_def update_chat_history_def

lemma example_env_fields:
  "load_data example_env = example_reader \<and> create_chat_completion example_env = example_llm \<and>
   similarity_search example_env = example_search \<and>
   get_content example_env = (\<lambda>n. doc_text (node_doc n))"
  by (simp add: example_env_def)



lemma agent_talked_fields:
  "chat_history agent_talked = [\<lparr>role = ''user'', content = Str ''Hi''\<rparr>,
                                \<lparr>role = ''assistant'', content = Str ''Hello''\<rparr>] \<and>
   lookup_files agent_talked = {''a.txt''} \<and>
   retriever agent_talked =
     Some \<lparr>similarity_top_k = 3,
           retriever_index = [doc_a1\<lparr>page_index := Some 0\<rparr>, doc_a2\<lparr>page_index := Some 1\<rparr>]\<rparr> \<and>
   similarity_cutoff agent_talked = 3 / 10"
  by (simp add: agent_talked_def agent_a_eq init_def)

lemma agent_ab_retriever:
  "retriever agent_ab =
     Some \<lparr>similarity_top_k = 3,
           retriever_index =
             [doc_a1\<lparr>page_index := Some 0\<rparr>, doc_a2\<lparr>page_index := Some 1\<rparr>,
              doc_a1\<lparr>page_index := Some 0\<rparr>, doc_a2\<lparr>page_index := Some 1\<rparr>,
              doc_b1\<lparr>page_index := Some 0\<rparr>]\<rparr> \<and>
   agent_k agent_ab = 3 \<and> similarity_cutoff agent_ab = 3 / 10"
  by (simp add: scenario_defs pipeline_defs)

lemma example_setup_same:
  "setup_step example_env (example_event {''a.txt''}) agent_talked = (Inr example_context, agent_talked)"
  by (simp add: setup_step_def agent_talked_fields example_event_def example_context_def)


lemma example_run:
  "fst (run example_env (example_event {''a.txt''}) agent_talked) =
     Inr (Chunks [\<lparr>delta_role = Some ''assistant'', delta_content = None\<rparr>,
                  \<lparr>delta_role = None, delta_content = Some ''Par''\<rparr>,
                  \<lparr>delta_role = None, delta_content = Some ''is''\<rparr>])"
  by (simp add: run_def example_setup_same condense_history_to_query_def agent_talked_fields
      convert_message_list_to_str_def retrieve_def aretrieve_def llm_response_def
      example_env_fields example_llm_def example_search_def example_context_def Let_def)

section \<open>Condensation\<close>



text \<open>The pipeline and the worker thread only ever append plain turns.\<close>

lemma run_keeps_plain:
  assumes "list_all is_plain (chat_history s)"
  shows "list_all is_plain (chat_history (snd (run E ev s)))"
proof (cases "run E ev s")
  case (Pair r s')
  show ?thesis
  proof (cases r)
    case (Inl e)
    then show ?thesis
      using Pair assms run_error_chat_history [of E ev s e s'] by simp
  next
    case (Inr resp)
    then show ?thesis
      using Pair assms run_ok_chat_history [of E ev s resp s'] by simp
  qed
qed

lemma processing_thread_run_keeps_plain:
  assumes "list_all is_plain (chat_history s)"
  shows "list_all is_plain (chat_history (snd (processing_thread_run E prompt img files s)))"
  using run_keeps_plain [OF assms, of E
      "\<lparr>ev_query_str = prompt, ev_image = img, ev_lookup_files = files, ev_streaming = True\<rparr>"]
  by (auto simp: processing_thread_run_def chat_completion_def update_chat_history_def Let_def
      split: prod.splits sum.splits response.splits)




section \<open>Retrieval\<close>

lemma retrieve_no_retriever: "retriever s = None \<Longrightarrow> retrieve E q s = (Inr [], s)"
  by (simp add: retrieve_def)

text \<open>
  C6. Without a retriever, retrieval returns the empty sequence as a result, not an
  error, and makes no call. With a retriever made with the agent's \<^verbatim>\<open>k\<close>, a successful
  retrieval returns at most \<^verbatim>\<open>k\<close> nodes, none of them scored below the cutoff. A new agent
  has \<^verbatim>\<open>k = 3\<close> and the cutoff 0.3.
\<close>

theorem retrieve_bounds:
  "(retriever s = None \<longrightarrow> retrieve E q s = (Inr [], s)) \<and>
   (retriever s \<noteq> None \<and> retriever_uses_k s \<and> retrieve E q s = (Inr nodes, s')
      \<longrightarrow> length nodes \<le> agent_k s \<and> (\<forall>n \<in> set nodes. similarity_cutoff s \<le> score n)) \<and>
   agent_k init = 3 \<and> similarity_cutoff init = 3 / 10"
  by (auto simp: retrieve_def aretrieve_def postprocess_nodes_def retriever_uses_k_def init_def
      split: option.splits sum.splits
      intro: order_trans [OF length_filter_le])

theorem retrieve_bounds_witness:
  "retrieve example_env ''capital?'' init = (Inr [], init) \<and>
   retriever agent_ab \<noteq> None \<and> retriever_uses_k agent_ab \<and>
   fst (retrieve example_env ''capital?'' agent_ab) =
     Inr [\<lparr>node_doc = doc_a1\<lparr>page_index := Some 0\<rparr>, score = 9 / 10\<rparr>,
          \<lparr>node_doc = doc_a2\<lparr>page_index := Some 1\<rparr>, score = 9 / 10\<rparr>,
          \<lparr>node_doc = doc_a1\<lparr>page_index := Some 0\<rparr>, score = 9 / 10\<rparr>] \<and>
   length [\<lparr>node_doc = doc_a1\<lparr>page_index := Some 0\<rparr>, score = 9 / 10\<rparr>,
          \<lparr>node_doc = doc_a2\<lparr>page_index := Some 1\<rparr>, score = 9 / 10\<rparr>,
          \<lparr>node_doc = doc_a1\<lparr>page_index := Some 0\<rparr>, score = 9 / 10\<rparr>] \<le> agent_k agent_ab"
proof -
  let ?nodes = "[\<lparr>node_doc = doc_a1\<lparr>page_index := Some 0\<rparr>, score = 9 / 10\<rparr>,
          \<lparr>node_doc = doc_a2\<lparr>page_index := Some 1\<rparr>, score = 9 / 10\<rparr>,
          \<lparr>node_doc = doc_a1\<lparr>page_index := Some 0\<rparr>, score = 9 / 10\<rparr>]"
  have h0: "retriever init = None"
    by (simp add: init_def)
  have h1: "retriever agent_ab \<noteq> None"
    by (simp add: agent_ab_retriever)
  have h2: "retriever_uses_k agent_ab"
    by (simp add: retriever_uses_k_def agent_ab_retriever)
  have h3: "fst (retrieve example_env ''capital?'' agent_ab) = Inr ?nodes"
    by (simp add: retrieve_def aretrieve_def postprocess_nodes_def agent_ab_retriever
        example_env_def example_search_def doc_a1_def doc_a2_def doc_b1_def)
  then have h4: "retrieve example_env ''capital?'' agent_ab = (Inr ?nodes, snd (retrieve example_env ''capital?'' agent_ab))"
    by (simp add: prod_eq_iff)
  show ?thesis
    using h0 h1 h2 h3 h4
      retrieve_bounds [of init example_env "''capital?''"]
      retrieve_bounds [of agent_ab example_env "''capital?''" ?nodes "snd (retrieve example_env ''capital?'' agent_ab)"]
    by simp
qed

section \<open>Chat history\<close>

text \<open>
  C2. After a successful run the history is the old history followed by one user turn
  whose content is the query of the invocation, as submitted. After the worker thread has
  collected the streamed answer and appended it, the history is the old history followed
  by that user turn and an assistant turn with the collected text; nothing else is added.
\<close>

theorem chat_history_after_invocation:
  "(run E ev s = (Inr resp, s')
      \<longrightarrow> chat_history s' = chat_history s @ [\<lparr>role = ''user'', content = Str (ev_query_str ev)\<rparr>]) \<and>
   (chat_completion E prompt img files True s = (Inr (Chunks chunks), t)
      \<longrightarrow> processing_thread_run E prompt img files s =
            (Inr (collect_response [] chunks),
             t\<lparr>chat_history := chat_history s @
                    [\<lparr>role = ''user'', content = Str prompt\<rparr>,
                     \<lparr>role = ''assistant'', content = Str (collect_response [] chunks)\<rparr>]\<rparr>))"
proof (intro conjI impI)
  assume "run E ev s = (Inr resp, s')"
  then show "chat_history s' = chat_history s @ [\<lparr>role = ''user'', content = Str (ev_query_str ev)\<rparr>]"
    by (rule run_ok_chat_history)
next
  assume a: "chat_completion E prompt img files True s = (Inr (Chunks chunks), t)"
  then have "chat_history t = chat_history s @ [\<lparr>role = ''user'', content = Str prompt\<rparr>]"
    using run_ok_chat_history [of E _ s "Chunks chunks" t] by (simp add: chat_completion_def)
  then show "processing_thread_run E prompt img files s =
            (Inr (collect_response [] chunks),
             t\<lparr>chat_history := chat_history s @
                    [\<lparr>role = ''user'', content = Str prompt\<rparr>,
                     \<lparr>role = ''assistant'', content = Str (collect_response [] chunks)\<rparr>]\<rparr>)"
    using a by (simp add: processing_thread_run_def update_chat_history_def Let_def)
qed

theorem chat_history_after_invocation_witness:
  "fst (run example_env (example_event {''a.txt''}) agent_talked) =
     Inr (Chunks [\<lparr>delta_role = Some ''assistant'', delta_content = None\<rparr>,
                  \<lparr>delta_role = None, delta_content = Some ''Par''\<rparr>,
                  \<lparr>delta_role = None, delta_content = Some ''is''\<rparr>]) \<and>
   chat_history (snd (run example_env (example_event {''a.txt''}) agent_talked)) =
     [\<lparr>role = ''user'', content = Str ''Hi''\<rparr>, \<lparr>role = ''assistant'', content = Str ''Hello''\<rparr>,
      \<lparr>role = ''user'', content = Str ''capital of France?''\<rparr>] \<and>
   fst (processing_thread_run example_env ''capital of France?'' None {''a.txt''} agent_talked) = Inr ''Paris'' \<and>
   chat_history (snd (processing_thread_run example_env ''capital of France?'' None {''a.txt''} agent_talked)) =
     [\<lparr>role = ''user'', content = Str ''Hi''\<rparr>, \<lparr>role = ''assistant'', content = Str ''Hello''\<rparr>,
      \<lparr>role = ''user'', content = Str ''capital of France?''\<rparr>,
      \<lparr>role = ''assistant'', content = Str ''Paris''\<rparr>]"
proof -
  let ?ev = "example_event {''a.txt''}"
  let ?chunks = "[\<lparr>delta_role = Some ''assistant'', delta_content = None\<rparr>,
                  \<lparr>delta_role = None, delta_content = Some ''Par''\<rparr>,
                  \<lparr>delta_role = None, delta_content = Some ''is''\<rparr>]"
  have h1: "run example_env ?ev agent_talked = (Inr (Chunks ?chunks), snd (run example_env ?ev agent_talked))"
    using example_run by (simp add: prod_eq_iff)
  have h2: "chat_completion example_env ''capital of France?'' None {''a.txt''} True agent_talked
              = (Inr (Chunks ?chunks), snd (run example_env ?ev agent_talked))"
    using h1 by (simp add: chat_completion_def example_event_def)
  show ?thesis
    using h1 h2 example_run
      chat_history_after_invocation [where E = example_env and ev = ?ev and s = agent_talked
        and resp = "Chunks ?chunks" and s' = "snd (run example_env ?ev agent_talked)"
        and prompt = "''capital of France?''" and img = None and files = "{''a.txt''}"
        and chunks = ?chunks and t = "snd (run example_env ?ev agent_talked)"]
    by (simp add: agent_talked_fields example_event_def)
qed



text \<open>
  C9. When an image is supplied and the final model call succeeds, the message sent to
  the model carries the prompt and the image as two parts, while the turn appended to the
  history is the plain query: it has no image part, and a history free of images stays
  free of images.
\<close>

theorem llm_response_image_only_in_model_message:
  assumes "image ctx = Some url" and "url \<noteq> []"
    and "llm_response E ctx nodes s = (Inr resp, s')"
  shows "trace s' = trace s @
           [CreateChatCompletion
              (chat_history s @
                 [\<lparr>role = ''user'',
                   content = Parts [TextPart (prepare_query_with_context E (query_str ctx) nodes),
                                    ImageUrlPart url]\<rparr>])
              (streaming ctx)] \<and>
         chat_history s' = chat_history s @ [\<lparr>role = ''user'', content = Str (query_str ctx)\<rparr>] \<and>
         \<not> has_image (last (chat_history s')) \<and>
         (list_all (\<lambda>m. \<not> has_image m) (chat_history s)
            \<longrightarrow> list_all (\<lambda>m. \<not> has_image m) (chat_history s'))"
  using assms
  by (auto simp: llm_response_def formated_message_def Let_def split: sum.splits)

theorem llm_response_image_only_in_model_message_witness:
  "image image_context = Some ''shot.png'' \<and>
   fst (llm_response example_env image_context [] init) = Inr (Completion ''capital?'') \<and>
   trace (snd (llm_response example_env image_context [] init)) =
     [CreateChatCompletion
        [\<lparr>role = ''user'', content = Parts [TextPart ''what is this?'', ImageUrlPart ''shot.png'']\<rparr>]
        False] \<and>
   chat_history (snd (llm_response example_env image_context [] init)) =
     [\<lparr>role = ''user'', content = Str ''what is this?''\<rparr>]"
proof -
  let ?s' = "snd (llm_response example_env image_context [] init)"
  have h1: "image image_context = Some ''shot.png''"
    by (simp add: image_context_def)
  have h2: "''shot.png'' \<noteq> []"
    by simp
  have f: "fst (llm_response example_env image_context [] init) = Inr (Completion ''capital?'')"
    by (simp add: llm_response_def example_env_fields example_llm_def image_context_def Let_def)
  then have h3: "llm_response example_env image_context [] init = (Inr (Completion ''capital?''), ?s')"
    by (simp add: prod_eq_iff)
  show ?thesis
    using h1 f llm_response_image_only_in_model_message [OF h1 h2 h3]
    by (simp add: init_def image_context_def prepare_query_with_context_def)
qed



section \<open>Properties of the prompt composition\<close>

text \<open>
  C7. Composing the final prompt for any query with an empty node sequence gives back
  the query itself: no context section is added.
\<close>

theorem prepare_query_with_context_empty:
  "prepare_query_with_context E q [] = q"
  by (simp add: prepare_query_with_context_def)

end
